theory Spec2Isabelle
  imports Complex_Main "HOL-Library.AList"
begin

section \<open>JavaScript values\<close>

text \<open>
  A JavaScript number is a finite value, \<open>NaN\<close> or one of the two infinities.  Finite
  values are exact rationals: the rounding of IEEE doubles is not modelled, the special values
  are.  Where the code divides by a length that can be zero, it divides a count by a
  length, so \<open>js_div\<close> takes two naturals: \<open>0 / 0\<close> is \<open>NaN\<close> and
  \<open>n / 0\<close> is \<open>Infinity\<close> for \<open>n > 0\<close>.  The other divisions have a
  divisor that the code keeps away from zero, and are written on the rationals.
  Where a double is rounded across a threshold the model and the code part: in doubles
  \<open>63 > 90 * 0.7\<close> and \<open>1 - 4 / 5 < 0.2\<close> are true, on the rationals they are
  false.
\<close>

datatype jsnum = Fin rat | NaN | PInf | NInf

text \<open>\<open>a < b\<close>: false as soon as one side is \<open>NaN\<close>.\<close>

fun js_lt :: "jsnum \<Rightarrow> jsnum \<Rightarrow> bool" where
  "js_lt (Fin a) (Fin b) = (a < b)"
| "js_lt (Fin a) PInf = True"
| "js_lt NInf (Fin b) = True"
| "js_lt NInf PInf = True"
| "js_lt _ _ = False"

definition js_gt :: "jsnum \<Rightarrow> jsnum \<Rightarrow> bool" where
  "js_gt a b = js_lt b a"

definition js_div :: "nat \<Rightarrow> nat \<Rightarrow> jsnum" where
  "js_div a b =
     (if b = 0 then (if a = 0 then NaN else PInf) else Fin (rat_of_nat a / rat_of_nat b))"

text \<open>\<open>1 - x\<close>.\<close>

fun js_one_minus :: "jsnum \<Rightarrow> jsnum" where
  "js_one_minus (Fin a) = Fin (1 - a)"
| "js_one_minus NaN = NaN"
| "js_one_minus PInf = NInf"
| "js_one_minus NInf = PInf"

text \<open>\<open>Math.max(0, x)\<close> and \<open>Math.min(x, 10)\<close>: \<open>NaN\<close> if an argument is.\<close>

fun js_max0 :: "jsnum \<Rightarrow> jsnum" where
  "js_max0 (Fin a) = Fin (max 0 a)"
| "js_max0 NaN = NaN"
| "js_max0 PInf = PInf"
| "js_max0 NInf = Fin 0"

fun js_min10 :: "jsnum \<Rightarrow> jsnum" where
  "js_min10 (Fin a) = Fin (min a 10)"
| "js_min10 NaN = NaN"
| "js_min10 PInf = Fin 10"
| "js_min10 NInf = NInf"

text \<open>\<open>x * 10\<close>.\<close>

fun js_times10 :: "jsnum \<Rightarrow> jsnum" where
  "js_times10 (Fin a) = Fin (a * 10)"
| "js_times10 x = x"

section \<open>JavaScript strings\<close>

text \<open>
  A string is its list of UTF-16 code units, which is what \<open>length\<close> counts and
  \<open>includes\<close> compares.  \<open>js\<close> embeds an ASCII literal.  \<open>toLowerCase\<close> is
  modelled on the ASCII letters; other code units are left as they are, so the model
  parts from the code on text with capital letters beyond ASCII (the code maps U+212A to
  \<open>k\<close> and U+0130 to \<open>i\<close> followed by U+0307).
\<close>

type_synonym jsstring = "nat list"

definition js :: "string \<Rightarrow> jsstring" where
  "js s = map of_char s"

fun is_prefix :: "'a list \<Rightarrow> 'a list \<Rightarrow> bool" where
  "is_prefix [] s = True"
| "is_prefix (p # ps) [] = False"
| "is_prefix (p # ps) (c # cs) = (p = c \<and> is_prefix ps cs)"

text \<open>\<open>s.includes(sub)\<close>.\<close>

fun js_includes :: "'a list \<Rightarrow> 'a list \<Rightarrow> bool" where
  "js_includes [] sub = (sub = [])"
| "js_includes (c # cs) sub = (is_prefix sub (c # cs) \<or> js_includes cs sub)"

definition toLowerCase :: "jsstring \<Rightarrow> jsstring" where
  "toLowerCase s = map (\<lambda>c. if 65 \<le> c \<and> c \<le> 90 then c + 32 else c) s"

text \<open>White space and line terminators, as \<open>trim\<close> strips them.\<close>

definition is_space :: "nat \<Rightarrow> bool" where
  "is_space c = (c \<in> set [9, 10, 11, 12, 13, 32, 160, 5760, 8232, 8233, 8239, 8287, 12288, 65279]
                 \<or> (8192 \<le> c \<and> c \<le> 8202))"

definition trim :: "jsstring \<Rightarrow> jsstring" where
  "trim s = rev (dropWhile is_space (rev (dropWhile is_space s)))"

text \<open>
  \<open>s.split(/[.!?]+/)\<close>: the pieces between maximal runs of \<open>.\<close>, \<open>!\<close> and
  \<open>?\<close>, empty pieces at both ends included; the empty string gives one empty piece.
  The flag says that the previous code unit belonged to a separator.
\<close>

definition is_terminator :: "nat \<Rightarrow> bool" where
  "is_terminator c = (c = 46 \<or> c = 33 \<or> c = 63)"

fun split_sentences :: "bool \<Rightarrow> jsstring \<Rightarrow> jsstring \<Rightarrow> jsstring list" where
  "split_sentences insep acc [] = [rev acc]"
| "split_sentences insep acc (c # cs) =
     (if is_terminator c
      then (if insep then split_sentences True acc cs
            else rev acc # split_sentences True [] cs)
      else split_sentences False (c # acc) cs)"

text \<open>\<open>s.split(' ')\<close>: the pieces between single spaces.\<close>

fun split_space :: "jsstring \<Rightarrow> jsstring \<Rightarrow> jsstring list" where
  "split_space acc [] = [rev acc]"
| "split_space acc (c # cs) =
     (if c = 32 then rev acc # split_space [] cs else split_space (c # acc) cs)"

section \<open>BehaviorAnalyzer: the analysis record\<close>

text \<open>
  The object built by \<open>performBehaviorAnalysis\<close>, with its three nested objects.  Counts
  are array lengths, hence naturals; a phrase is a string of UTF-16 code units.
\<close>

record activityPattern =
  hourlyDistribution :: "nat list"
  peakHour :: int
  activitySpread :: nat
  isUnusualPattern :: bool

record responsePatterns =
  averageResponseTime :: jsnum
  totalResponses :: nat
  fastResponses :: nat
  conversationInitiation :: nat

record contentAnalysis =
  repetitionRate :: jsnum
  commonPhrases :: "(jsstring \<times> nat) list"
  genericResponseRate :: jsnum
  averageWordsPerMessage :: jsnum

record analysis =
  messageFrequency :: jsnum
  averageMessageLength :: jsnum
  topicConsistency :: jsnum
  interactionPatterns :: "string list"
  suspicionScore :: int
  riskFactors :: "string list"
  activityPattern :: activityPattern
  responsePatterns :: responsePatterns
  contentAnalysis :: contentAnalysis

subsection \<open>Statistics of a message history\<close>

text \<open>
  A stored message, with the fields the analyzer reads.  \<open>timestamp\<close> is the value of
  \<open>new Date(msg.timestamp).getTime()\<close> in milliseconds; \<open>topics\<close> is
  \<open>msg.topics || []\<close>.
\<close>

record message =
  content :: jsstring
  timestamp :: int
  userId :: string
  topics :: "jsstring list"
  mentions :: "jsstring list"

text \<open>
  \<open>analyzeMessageFrequency\<close> reads the clock: the span runs from the timestamp of the
  last element of the history to \<open>Date.now()\<close>, here the parameter \<open>now\<close>.
\<close>

definition analyzeMessageFrequency :: "int \<Rightarrow> message list \<Rightarrow> jsnum" where
  "analyzeMessageFrequency now messageHistory =
     (if length messageHistory = 0 then Fin 0
      else let timeSpan = now - timestamp (last messageHistory);
               hoursSpan = rat_of_int timeSpan / (1000 * 60 * 60)
           in Fin (rat_of_nat (length messageHistory) / max hoursSpan 1))"

definition calculateAverageMessageLength :: "message list \<Rightarrow> jsnum" where
  "calculateAverageMessageLength messageHistory =
     (if length messageHistory = 0 then Fin 0
      else let totalLength = fold (\<lambda>msg sum. sum + length (content msg)) messageHistory 0
           in js_div totalLength (length messageHistory))"

definition analyzeTopicConsistency :: "message list \<Rightarrow> jsnum" where
  "analyzeTopicConsistency messageHistory =
     (if length messageHistory = 0 then Fin 0
      else let allTopics = concat (map topics messageHistory);
               uniqueTopics = remdups allTopics
           in js_max0 (js_one_minus (js_div (length uniqueTopics) (length messageHistory))))"

text \<open>The two emoji of the reaction test: U+1F44D, and U+2764 followed by U+FE0F.\<close>

definition thumbs_up :: jsstring where
  "thumbs_up = [55357, 56397]"

definition red_heart :: jsstring where
  "red_heart = [10084, 65039]"

text \<open>The filter with index of the initiation test: the first message counts, a later one
  counts when it comes more than five minutes after its predecessor.\<close>

fun initiations :: "message \<Rightarrow> message list \<Rightarrow> nat" where
  "initiations prevMsg [] = 0"
| "initiations prevMsg (msg # rest) =
     (if timestamp msg - timestamp prevMsg > 300000 then 1 else 0) + initiations msg rest"

definition initiationCount :: "message list \<Rightarrow> nat" where
  "initiationCount messageHistory =
     (case messageHistory of [] \<Rightarrow> 0 | msg # rest \<Rightarrow> 1 + initiations msg rest)"

definition analyzeInteractionPatterns :: "message list \<Rightarrow> string list" where
  "analyzeInteractionPatterns messageHistory =
     (let replyCount = length (filter (\<lambda>msg. js_includes (content msg) (js ''@'') \<or>
                                               length (mentions msg) > 0) messageHistory);
          reactionCount = length (filter (\<lambda>msg. js_includes (content msg) thumbs_up \<or>
                                                  js_includes (content msg) red_heart)
                                         messageHistory)
      in (if js_gt (js_div replyCount (length messageHistory)) (Fin (8/10))
          then [''high_reply_rate''] else [])
       @ (if js_gt (js_div reactionCount (length messageHistory)) (Fin (5/10))
          then [''high_reaction_usage''] else [])
       @ (if js_gt (js_div (initiationCount messageHistory) (length messageHistory)) (Fin (3/10))
          then [''frequent_conversation_starter''] else []))"

text \<open>
  \<open>getHours\<close> is the hour of the day in the host's time zone; \<open>tz\<close> is that zone's
  offset from UTC in milliseconds, taken as constant over the history.
\<close>

definition getHours :: "int \<Rightarrow> int \<Rightarrow> nat" where
  "getHours tz t = nat (((t + tz) div 3600000) mod 24)"

text \<open>\<open>indexOf\<close>: the first index holding the value, \<open>-1\<close> if there is none.
  \<open>Math.max\<close> over the 24 counts is a fold of \<open>max\<close> from 0, as no count is
  negative.\<close>

fun indexOf :: "'a list \<Rightarrow> 'a \<Rightarrow> int" where
  "indexOf [] v = -1"
| "indexOf (x # xs) v = (if x = v then 0 else (let i = indexOf xs v in if i < 0 then i else i + 1))"

definition analyzeActivityPattern :: "int \<Rightarrow> message list \<Rightarrow> activityPattern" where
  "analyzeActivityPattern tz messageHistory =
     (let hourlyActivity =
            fold (\<lambda>msg acc. let hour = getHours tz (timestamp msg) in acc[hour := acc ! hour + 1])
                 messageHistory (replicate 24 0);
          maxActivity = fold max hourlyActivity 0;
          avgActivity = rat_of_nat (fold (+) hourlyActivity 0) / 24
      in \<lparr> hourlyDistribution = hourlyActivity,
           peakHour = indexOf hourlyActivity maxActivity,
           activitySpread = length (filter (\<lambda>count. count > 0) hourlyActivity),
           isUnusualPattern = js_gt (Fin (rat_of_nat maxActivity)) (Fin (avgActivity * 5)) \<rparr>)"

text \<open>The loop over consecutive pairs: gaps between messages of different authors that
  are below five minutes, in order.\<close>

fun responseTimes :: "message \<Rightarrow> message list \<Rightarrow> int list" where
  "responseTimes prevMsg [] = []"
| "responseTimes prevMsg (currentMsg # rest) =
     (if userId currentMsg = userId prevMsg then responseTimes currentMsg rest
      else let responseTime = timestamp currentMsg - timestamp prevMsg
           in (if responseTime < 300000 then [responseTime] else [])
              @ responseTimes currentMsg rest)"

text \<open>The sum of the gaps divided by their number; the gaps may be negative.\<close>

definition analyzeResponsePatterns :: "message list \<Rightarrow> responsePatterns" where
  "analyzeResponsePatterns messageHistory =
     (let times = (case messageHistory of [] \<Rightarrow> [] | m # rest \<Rightarrow> responseTimes m rest);
          avgResponseTime =
            (if length times > 0
             then Fin (rat_of_int (fold (+) times 0) / rat_of_nat (length times))
             else Fin 0)
      in \<lparr> averageResponseTime = avgResponseTime,
           totalResponses = length times,
           fastResponses = length (filter (\<lambda>time. time < 10000) times),
           conversationInitiation = 0 \<rparr>)"

text \<open>
  \<open>phraseFrequency\<close>: the phrases with their number of occurrences, in the order of
  first occurrence, which is the order of \<open>Object.entries\<close> (a phrase is longer than
  ten code units, so none is an array index).
\<close>

fun countPhrase :: "jsstring \<Rightarrow> (jsstring \<times> nat) list \<Rightarrow> (jsstring \<times> nat) list" where
  "countPhrase phrase [] = [(phrase, 1)]"
| "countPhrase phrase ((p, n) # rest) =
     (if p = phrase then (p, n + 1) # rest else (p, n) # countPhrase phrase rest)"

definition phraseFrequency :: "jsstring list \<Rightarrow> (jsstring \<times> nat) list" where
  "phraseFrequency phrases = fold countPhrase phrases []"

text \<open>The three patterns are anchored alternations of words; the content is lower case
  already.\<close>

definition genericWords :: "jsstring list" where
  "genericWords = map js
     [''yes'', ''no'', ''ok'', ''sure'', ''thanks'', ''thank you'',
      ''lol'', ''haha'', ''nice'', ''cool'', ''awesome'',
      ''good'', ''great'', ''amazing'', ''perfect'']"

text \<open>
  The phrase \<open>constructor\<close> never reaches the common phrases: the counter object
  inherits a property of that name, so its count is not a number and \<open>count > 2\<close>
  is false.  The sort is stable and descending in the count.
\<close>

definition analyzeContentPatterns :: "message list \<Rightarrow> contentAnalysis" where
  "analyzeContentPatterns messageHistory =
     (let contents = map (\<lambda>msg. toLowerCase (content msg)) messageHistory;
          uniqueContents = remdups contents;
          repetitionRate = js_one_minus (js_div (length uniqueContents) (length contents));
          phrases = filter (\<lambda>phrase. length phrase > 10)
                      (concat (map (\<lambda>content. map trim (split_sentences False [] content))
                                   contents));
          commonPhrases =
            take 5 (sort_key (\<lambda>(phrase, count). - int count)
                      (filter (\<lambda>(phrase, count). count > 2 \<and> phrase \<noteq> js ''constructor'')
                              (phraseFrequency phrases)));
          genericCount = length (filter (\<lambda>content. trim content \<in> set genericWords) contents)
      in \<lparr> repetitionRate = repetitionRate,
           commonPhrases = commonPhrases,
           genericResponseRate = js_div genericCount (length contents),
           averageWordsPerMessage =
             js_div (fold (\<lambda>content sum. sum + length (split_space [] content)) contents 0)
                    (length contents) \<rparr>)"

subsection \<open>calculateSuspicionScore\<close>

text \<open>
  The source keeps a running \<open>score\<close> and adds to it under nine independent tests, then
  returns \<open>Math.min(score, 10)\<close>.  The running score is a sum of integer literals.
\<close>

definition calculateSuspicionScore :: "analysis \<Rightarrow> int" where
  "calculateSuspicionScore a =
     (let score = 0;
          score = (if js_gt (messageFrequency a) (Fin 10) then score + 2 else score);
          score = (if js_gt (messageFrequency a) (Fin 20) then score + 3 else score);
          score = (if js_lt (averageMessageLength a) (Fin 10) \<or>
                      js_gt (averageMessageLength a) (Fin 500) then score + 1 else score);
          score = (if js_gt (repetitionRate (contentAnalysis a)) (Fin (7/10))
                   then score + 3 else score);
          score = (if js_gt (repetitionRate (contentAnalysis a)) (Fin (9/10))
                   then score + 5 else score);
          score = (if js_gt (genericResponseRate (contentAnalysis a)) (Fin (8/10))
                   then score + 2 else score);
          score = (if isUnusualPattern (activityPattern a) then score + 2 else score);
          score = (if js_gt (Fin (rat_of_nat (fastResponses (responsePatterns a))))
                            (Fin (rat_of_nat (totalResponses (responsePatterns a)) * (8/10)))
                   then score + 3 else score);
          score = (if js_lt (topicConsistency a) (Fin (2/10)) then score + 1 else score)
      in min score 10)"

text \<open>
  The additive sum as the specification words it: one term per rule, the two frequency
  thresholds and the two repetition thresholds adding independently.
\<close>

definition spec_sum :: "analysis \<Rightarrow> int" where
  "spec_sum a =
     (if js_gt (messageFrequency a) (Fin 10) then 2 else 0)
   + (if js_gt (messageFrequency a) (Fin 20) then 3 else 0)
   + (if js_lt (averageMessageLength a) (Fin 10) \<or> js_gt (averageMessageLength a) (Fin 500)
      then 1 else 0)
   + (if js_gt (repetitionRate (contentAnalysis a)) (Fin (7/10)) then 3 else 0)
   + (if js_gt (repetitionRate (contentAnalysis a)) (Fin (9/10)) then 5 else 0)
   + (if js_gt (genericResponseRate (contentAnalysis a)) (Fin (8/10)) then 2 else 0)
   + (if isUnusualPattern (activityPattern a) then 2 else 0)
   + (if js_gt (Fin (rat_of_nat (fastResponses (responsePatterns a))))
               (Fin (rat_of_nat (totalResponses (responsePatterns a)) * (8/10)))
      then 3 else 0)
   + (if js_lt (topicConsistency a) (Fin (2/10)) then 1 else 0)"

subsection \<open>identifyRiskFactors\<close>

text \<open>Six tests, each pushing one tag; the tags keep the order of the tests.\<close>

definition identifyRiskFactors :: "analysis \<Rightarrow> string list" where
  "identifyRiskFactors a =
     (if js_gt (messageFrequency a) (Fin 15) then [''excessive_messaging_frequency''] else [])
   @ (if js_gt (repetitionRate (contentAnalysis a)) (Fin (8/10))
      then [''high_content_repetition''] else [])
   @ (if js_gt (genericResponseRate (contentAnalysis a)) (Fin (7/10))
      then [''generic_responses''] else [])
   @ (if isUnusualPattern (activityPattern a) then [''unusual_activity_timing''] else [])
   @ (if js_gt (Fin (rat_of_nat (fastResponses (responsePatterns a))))
               (Fin (rat_of_nat (totalResponses (responsePatterns a)) * (7/10)))
      then [''suspiciously_fast_responses''] else [])
   @ (if js_lt (averageMessageLength a) (Fin 5) then [''extremely_short_messages''] else [])"

text \<open>
  The statistics of the specification's first example; the fields the example leaves open
  are those of an otherwise unremarkable history.
\<close>

definition example1 :: analysis where
  "example1 =
     \<lparr> messageFrequency = Fin 25,
       averageMessageLength = Fin 8,
       topicConsistency = Fin (1/2),
       interactionPatterns = [],
       suspicionScore = 0,
       riskFactors = [],
       activityPattern = \<lparr> hourlyDistribution = replicate 24 0, peakHour = 0,
                           activitySpread = 0, isUnusualPattern = False \<rparr>,
       responsePatterns = \<lparr> averageResponseTime = Fin 0, totalResponses = 0,
                             fastResponses = 0, conversationInitiation = 0 \<rparr>,
       contentAnalysis = \<lparr> repetitionRate = Fin (95/100), commonPhrases = [],
                           genericResponseRate = Fin (85/100),
                           averageWordsPerMessage = Fin 2 \<rparr> \<rparr>"

section \<open>BehaviorAnalyzer: the whole analysis\<close>

text \<open>
  \<open>performBehaviorAnalysis\<close> builds the object, then stores the score and the risk
  factors in it.  The profile is a parameter that the function never reads.
\<close>

definition performBehaviorAnalysis :: "int \<Rightarrow> int \<Rightarrow> 'p \<Rightarrow> message list \<Rightarrow> analysis" where
  "performBehaviorAnalysis now tz profile messageHistory =
     (let analysis =
            \<lparr> messageFrequency = analyzeMessageFrequency now messageHistory,
              averageMessageLength = calculateAverageMessageLength messageHistory,
              topicConsistency = analyzeTopicConsistency messageHistory,
              interactionPatterns = analyzeInteractionPatterns messageHistory,
              suspicionScore = 0,
              riskFactors = [],
              activityPattern = analyzeActivityPattern tz messageHistory,
              responsePatterns = analyzeResponsePatterns messageHistory,
              contentAnalysis = analyzeContentPatterns messageHistory \<rparr>;
          analysis = analysis\<lparr>suspicionScore := calculateSuspicionScore analysis\<rparr>;
          analysis = analysis\<lparr>riskFactors := identifyRiskFactors analysis\<rparr>
      in analysis)"

text \<open>Eleven one-letter messages of one author, all stamped with the same instant.\<close>

definition history11 :: "message list" where
  "history11 =
     map (\<lambda>c. \<lparr> content = [c], timestamp = 0, userId = ''u'', topics = [], mentions = [] \<rparr>)
         [97, 98, 99, 100, 101, 102, 103, 104, 105, 106, 107]"

text \<open>
  Eleven one-letter messages of one author, one per minute and oldest first: the first
  element is stamped 0 and the last one 600000.
\<close>

definition historyAscending :: "message list" where
  "historyAscending =
     map (\<lambda>i. \<lparr> content = [97 + i], timestamp = int i * 60000, userId = ''u'',
                  topics = [], mentions = [] \<rparr>)
         [0, 1, 2, 3, 4, 5, 6, 7, 8, 9, 10]"

section \<open>ServerIntelligence: project classification\<close>

text \<open>
  \<open>s.split(sep)\<close> for a non-empty separator string: the pieces between the
  occurrences of \<open>sep\<close>, found from left to right without overlap.  The number of
  pieces minus one is the number of occurrences.  The separators of the source are its
  keywords, none of them empty.
\<close>

function js_split :: "jsstring \<Rightarrow> jsstring \<Rightarrow> jsstring \<Rightarrow> jsstring list" where
  "js_split sep acc [] = [rev acc]"
| "js_split sep acc (c # cs) =
     (if is_prefix sep (c # cs) then rev acc # js_split sep [] (drop (length sep - 1) cs)
      else js_split sep (c # acc) cs)"
  by pat_completeness auto
termination
  by (relation "measure (\<lambda>(sep, acc, s). length s)") auto

text \<open>\<open>xs.join(sep)\<close>.\<close>

fun js_join :: "jsstring \<Rightarrow> jsstring list \<Rightarrow> jsstring" where
  "js_join sep [] = []"
| "js_join sep [x] = x"
| "js_join sep (x # y # ys) = x @ sep @ js_join sep (y # ys)"

text \<open>
  The guild as \<open>categorizeProject\<close> reads it: its name, its description (absent, or a
  string; \<open>guild.description || ''\<close>) and the names of its channels in cache order.
\<close>

record guild =
  name :: jsstring
  description :: "jsstring option"
  channels :: "jsstring list"

record serverProfile =
  projectType :: string

text \<open>The table of keywords; \<open>Object.entries\<close> lists it in the order it is written.\<close>

definition indicators :: "(string \<times> jsstring list) list" where
  "indicators =
     [(''defi'', map js [''defi'', ''swap'', ''dex'', ''yield'', ''farming'', ''liquidity'',
                         ''staking'']),
      (''nft'', map js [''nft'', ''collectible'', ''art'', ''mint'', ''opensea'',
                        ''marketplace'']),
      (''gaming'', map js [''game'', ''gaming'', ''play'', ''earn'', ''metaverse'', ''avatar'']),
      (''infrastructure'', map js [''blockchain'', ''protocol'', ''network'', ''validator'',
                                   ''node'']),
      (''meme'', map js [''meme'', ''doge'', ''shib'', ''moon'', ''diamond'', ''hands''])]"

definition combinedText :: "guild \<Rightarrow> jsstring" where
  "combinedText g =
     (let serverText = toLowerCase (name g @ js '' '' @
                         (case description g of None \<Rightarrow> [] | Some d \<Rightarrow> d));
          channelNames = toLowerCase (js_join (js '' '') (channels g))
      in serverText @ js '' '' @ channelNames)"

text \<open>The inner \<open>reduce\<close>: the occurrences of the keywords of one type, added up.\<close>

definition typeScore :: "jsstring \<Rightarrow> jsstring list \<Rightarrow> nat" where
  "typeScore text keywords =
     fold (\<lambda>keyword acc. acc + (length (js_split keyword [] text) - 1)) keywords 0"

text \<open>The \<open>forEach\<close> over the table, on the pair \<open>(maxScore, detectedType)\<close>.\<close>

definition scanTypes ::
  "jsstring \<Rightarrow> (string \<times> jsstring list) list \<Rightarrow> nat \<times> string \<Rightarrow> nat \<times> string" where
  "scanTypes text table start =
     fold (\<lambda>(type, keywords) (maxScore, detectedType).
             let score = typeScore text keywords
             in if score > maxScore then (score, type) else (maxScore, detectedType))
          table start"

definition detectedType :: "guild \<Rightarrow> string" where
  "detectedType g = snd (scanTypes (combinedText g) indicators (0, ''unknown''))"

text \<open>\<open>categorizeProject\<close> stores the detected type in the profile; the analysis of
  project specifics that follows does not touch the type.\<close>

definition categorizeProject :: "guild \<Rightarrow> serverProfile \<Rightarrow> serverProfile" where
  "categorizeProject g profile = profile\<lparr>projectType := detectedType g\<rparr>"

text \<open>A guild whose text names one DeFi keyword and one NFT keyword, and the guild of
  the specification's second example.\<close>

definition tieGuild :: guild where
  "tieGuild = \<lparr> name = js ''DeFi NFT'', description = None, channels = [] \<rparr>"

definition yieldGuild :: guild where
  "yieldGuild = \<lparr> name = js ''DeFi Yield Farming Hub'', description = None,
                   channels = map js [''general'', ''yield-farming'', ''staking-info''] \<rparr>"

section \<open>WebSocketManager: the broadcast hub\<close>

text \<open>
  The two maps of the manager keep insertion order, so they are association lists with
  distinct keys: \<open>clients\<close> from client id to client, \<open>serverConnections\<close> from
  server id to the set of client ids registered for it (a list without duplicates).
  A client holds the server id it last registered for (\<open>None\<close> is \<open>null\<close>), its
  liveness flag, and whether its socket is in state \<open>OPEN\<close>.
\<close>

record client =
  serverId :: "string option"
  lastPing :: int
  isAlive :: bool
  readyOpen :: bool

record hub =
  clients :: "(string \<times> client) list"
  serverConnections :: "(string \<times> string list) list"

definition emptyHub :: hub where
  "emptyHub = \<lparr> clients = [], serverConnections = [] \<rparr>"

text \<open>The messages a client can send; only a registration changes the registry, the
  other kinds are passed on to listeners or logged.\<close>

datatype wsMessage = RegisterServer string | MessageStream | AnalysisRequest | UnknownType

text \<open>\<open>set.add(x)\<close> and \<open>set.delete(x)\<close> on a set kept as a list.\<close>

definition setAdd :: "'a \<Rightarrow> 'a list \<Rightarrow> 'a list" where
  "setAdd x xs = (if x \<in> set xs then xs else xs @ [x])"

definition setDelete :: "'a \<Rightarrow> 'a list \<Rightarrow> 'a list" where
  "setDelete x xs = removeAll x xs"

definition registerServerConnection :: "hub \<Rightarrow> string \<Rightarrow> string \<Rightarrow> hub" where
  "registerServerConnection h clientId sid =
     (case map_of (clients h) clientId of
        None \<Rightarrow> h
      | Some client \<Rightarrow>
          let h = h\<lparr>clients := AList.update clientId (client\<lparr>serverId := Some sid\<rparr>) (clients h)\<rparr>;
              h = (if map_of (serverConnections h) sid = None
                   then h\<lparr>serverConnections := AList.update sid [] (serverConnections h)\<rparr>
                   else h)
          in (case map_of (serverConnections h) sid of
                None \<Rightarrow> h
              | Some serverClients \<Rightarrow>
                  h\<lparr>serverConnections :=
                      AList.update sid (setAdd clientId serverClients) (serverConnections h)\<rparr>))"

text \<open>\<open>if (client.serverId)\<close> holds for a string that is not empty.\<close>

definition handleDisconnection :: "hub \<Rightarrow> string \<Rightarrow> hub" where
  "handleDisconnection h clientId =
     (case map_of (clients h) clientId of
        None \<Rightarrow> h
      | Some client \<Rightarrow>
          let h = (case serverId client of
                     None \<Rightarrow> h
                   | Some sid \<Rightarrow>
                       if sid = [] then h
                       else (case map_of (serverConnections h) sid of
                               None \<Rightarrow> h
                             | Some serverClients \<Rightarrow>
                                 let serverClients = setDelete clientId serverClients
                                 in if length serverClients = 0
                                    then h\<lparr>serverConnections :=
                                           AList.delete sid (serverConnections h)\<rparr>
                                    else h\<lparr>serverConnections :=
                                           AList.update sid serverClients
                                             (serverConnections h)\<rparr>))
          in h\<lparr>clients := AList.delete clientId (clients h)\<rparr>)"

definition handleMessage :: "hub \<Rightarrow> string \<Rightarrow> wsMessage \<Rightarrow> hub" where
  "handleMessage h clientId message =
     (case map_of (clients h) clientId of
        None \<Rightarrow> h
      | Some client \<Rightarrow>
          (case message of
             RegisterServer sid \<Rightarrow> registerServerConnection h clientId sid
           | MessageStream \<Rightarrow> h
           | AnalysisRequest \<Rightarrow> h
           | UnknownType \<Rightarrow> h))"

text \<open>
  \<open>broadcastToServer\<close>: the ids of the clients the message is sent to, in the order of
  the \<open>forEach\<close>; nothing when the server id has no entry.
\<close>

definition broadcastToServer :: "hub \<Rightarrow> string \<Rightarrow> string list" where
  "broadcastToServer h sid =
     (case map_of (serverConnections h) sid of
        None \<Rightarrow> []
      | Some serverClients \<Rightarrow>
          filter (\<lambda>clientId. case map_of (clients h) clientId of
                                None \<Rightarrow> False
                              | Some client \<Rightarrow> readyOpen client)
                 serverClients)"

text \<open>One visit of the heartbeat's \<open>forEach\<close>, and the whole round over the clients
  present when it starts; a visit changes no entry but the visited one.\<close>

definition heartbeatVisit :: "string \<Rightarrow> hub \<Rightarrow> hub" where
  "heartbeatVisit clientId h =
     (case map_of (clients h) clientId of
        None \<Rightarrow> h
      | Some client \<Rightarrow>
          if \<not> isAlive client then handleDisconnection h clientId
          else h\<lparr>clients := AList.update clientId (client\<lparr>isAlive := False\<rparr>) (clients h)\<rparr>)"

definition heartbeat :: "hub \<Rightarrow> hub" where
  "heartbeat h = fold heartbeatVisit (map fst (clients h)) h"

text \<open>The events of the hub: the callbacks installed by \<open>initialize\<close> and the timer
  of \<open>startHeartbeat\<close>.  \<open>Closing\<close> is the socket leaving state \<open>OPEN\<close> before
  its \<open>close\<close> event is delivered.\<close>

datatype hubEvent =
    Connection string int
  | Message string wsMessage
  | Closing string
  | Close string
  | SocketError string
  | Pong string int
  | Heartbeat

fun hubStep :: "hub \<Rightarrow> hubEvent \<Rightarrow> hub" where
  "hubStep h (Connection clientId now) =
     h\<lparr>clients := AList.update clientId
          \<lparr> serverId = None, lastPing = now, isAlive = True, readyOpen = True \<rparr> (clients h)\<rparr>"
| "hubStep h (Message clientId message) = handleMessage h clientId message"
| "hubStep h (Closing clientId) =
     (case map_of (clients h) clientId of
        None \<Rightarrow> h
      | Some client \<Rightarrow>
          h\<lparr>clients := AList.update clientId (client\<lparr>readyOpen := False\<rparr>) (clients h)\<rparr>)"
| "hubStep h (Close clientId) = handleDisconnection h clientId"
| "hubStep h (SocketError clientId) = handleDisconnection h clientId"
| "hubStep h (Pong clientId now) =
     (case map_of (clients h) clientId of
        None \<Rightarrow> h
      | Some client \<Rightarrow>
          h\<lparr>clients := AList.update clientId (client\<lparr>isAlive := True, lastPing := now\<rparr>)
                           (clients h)\<rparr>)"
| "hubStep h Heartbeat = heartbeat h"

definition hubRun :: "hubEvent list \<Rightarrow> hub" where
  "hubRun events = fold (\<lambda>e h. hubStep h e) events emptyHub"

text \<open>A client connects, registers for server \<open>A\<close>, then registers for server
  \<open>B\<close>; in the second trace it disconnects afterwards.\<close>

definition reRegister :: "hubEvent list" where
  "reRegister =
     [Connection ''c1'' 0, Message ''c1'' (RegisterServer ''A''),
      Message ''c1'' (RegisterServer ''B'')]"

definition reRegisterThenClose :: "hubEvent list" where
  "reRegisterThenClose = reRegister @ [Close ''c1'']"

text \<open>Instead of disconnecting, the client answers no ping: the first heartbeat round
  marks it, the second one reaps it.\<close>

definition reRegisterThenReaped :: "hubEvent list" where
  "reRegisterThenReaped = reRegister @ [Heartbeat, Heartbeat]"

section \<open>QueueManager: job options\<close>

text \<open>
  An options object, as a caller passes it to \<open>addJob\<close>, as a queue holds it in
  \<open>defaultJobOptions\<close>, and as a job carries it: every key may be absent.
\<close>

text \<open>The two values of \<open>backoff\<close> in the source, the strings \<open>'fixed'\<close> and
  \<open>'exponential'\<close>.\<close>

datatype backoffPolicy = FixedBackoff | ExponentialBackoff

record jobOptions =
  priority :: "int option"
  delay :: "int option"
  attempts :: "int option"
  backoff :: "backoffPolicy option"
  removeOnComplete :: "nat option"
  removeOnFail :: "nat option"

definition noOptions :: jobOptions where
  "noOptions = \<lparr> priority = None, delay = None, attempts = None, backoff = None,
                  removeOnComplete = None, removeOnFail = None \<rparr>"

text \<open>\<open>x || d\<close> on a number that may be absent: absent and 0 give the default.\<close>

definition orDefault :: "int option \<Rightarrow> int \<Rightarrow> int" where
  "orDefault x d = (case x of None \<Rightarrow> d | Some v \<Rightarrow> if v = 0 then d else v)"

text \<open>\<open>{ ...base, ...over }\<close>: a key present in \<open>over\<close> wins.\<close>

definition orElse :: "'a option \<Rightarrow> 'a option \<Rightarrow> 'a option" where
  "orElse over base = (case over of None \<Rightarrow> base | Some v \<Rightarrow> Some v)"

definition spread :: "jobOptions \<Rightarrow> jobOptions \<Rightarrow> jobOptions" where
  "spread base over =
     \<lparr> priority = orElse (priority over) (priority base),
       delay = orElse (delay over) (delay base),
       attempts = orElse (attempts over) (attempts base),
       backoff = orElse (backoff over) (backoff base),
       removeOnComplete = orElse (removeOnComplete over) (removeOnComplete base),
       removeOnFail = orElse (removeOnFail over) (removeOnFail base) \<rparr>"

text \<open>The four queues of \<open>initialize\<close> with their default job options.\<close>

definition queues :: "(string \<times> jobOptions) list" where
  "queues =
     [(''message_analysis'',
         \<lparr> priority = None, delay = None, attempts = Some 3,
           backoff = Some ExponentialBackoff,
           removeOnComplete = Some 100, removeOnFail = Some 50 \<rparr>),
      (''server_profiling'',
         \<lparr> priority = None, delay = None, attempts = Some 2,
           backoff = Some FixedBackoff,
           removeOnComplete = Some 50, removeOnFail = Some 25 \<rparr>),
      (''behavior_analysis'',
         \<lparr> priority = None, delay = None, attempts = Some 3,
           backoff = Some ExponentialBackoff,
           removeOnComplete = Some 75, removeOnFail = Some 30 \<rparr>),
      (''real_time_processing'',
         \<lparr> priority = None, delay = Some 0, attempts = Some 1,
           backoff = None,
           removeOnComplete = Some 200, removeOnFail = Some 100 \<rparr>)]"

record queueManager =
  managerQueues :: "(string \<times> jobOptions) list"
  isInitialized :: bool

definition initialize :: "queueManager \<Rightarrow> queueManager" where
  "initialize m = m\<lparr> managerQueues := queues, isInitialized := True \<rparr>"

datatype queueError = NotInitialized | QueueNotFound string

record 'd job =
  jobQueue :: string
  jobType :: string
  jobData :: 'd
  opts :: jobOptions
  attemptsMade :: nat

text \<open>
  The queue library's \<open>add\<close>: the options given with the job are completed by the
  queue's default job options, a key given with the job taking precedence.
\<close>

definition queueAdd :: "string \<Rightarrow> jobOptions \<Rightarrow> string \<Rightarrow> 'd \<Rightarrow> jobOptions \<Rightarrow> 'd job" where
  "queueAdd queueName defaults type data given =
     \<lparr> jobQueue = queueName, jobType = type, jobData = data,
       opts = spread defaults given, attemptsMade = 0 \<rparr>"

text \<open>\<open>addJob\<close> passes \<open>priority\<close>, \<open>delay\<close> and \<open>attempts\<close> with every
  job, with defaults 0, 0 and 3, and the caller's options spread over them.\<close>

definition addJob ::
  "queueManager \<Rightarrow> string \<Rightarrow> string \<Rightarrow> 'd \<Rightarrow> jobOptions \<Rightarrow> queueError + 'd job" where
  "addJob m queueName type data options =
     (if \<not> isInitialized m then Inl NotInitialized
      else case map_of (managerQueues m) queueName of
             None \<Rightarrow> Inl (QueueNotFound queueName)
           | Some defaults \<Rightarrow>
               Inr (queueAdd queueName defaults type data
                      (spread \<lparr> priority = Some (orDefault (priority options) 0),
                                delay = Some (orDefault (delay options) 0),
                                attempts = Some (orDefault (attempts options) 3),
                                backoff = None, removeOnComplete = None,
                                removeOnFail = None \<rparr>
                              options)))"

definition addMessageAnalysisJob :: "queueManager \<Rightarrow> 'd \<Rightarrow> int \<Rightarrow> queueError + 'd job" where
  "addMessageAnalysisJob m messageData prio =
     addJob m ''message_analysis'' ''analyze_message'' messageData
       (noOptions\<lparr>priority := Some prio\<rparr>)"

definition addServerProfilingJob :: "queueManager \<Rightarrow> 'd \<Rightarrow> int \<Rightarrow> queueError + 'd job" where
  "addServerProfilingJob m guild prio =
     addJob m ''server_profiling'' ''profile_server'' guild (noOptions\<lparr>priority := Some prio\<rparr>)"

definition addBehaviorAnalysisJob :: "queueManager \<Rightarrow> 'd \<Rightarrow> int \<Rightarrow> queueError + 'd job" where
  "addBehaviorAnalysisJob m request prio =
     addJob m ''behavior_analysis'' ''analyze_behavior'' request
       (noOptions\<lparr>priority := Some prio\<rparr>)"

definition addRealTimeProcessingJob :: "queueManager \<Rightarrow> 'd \<Rightarrow> int \<Rightarrow> queueError + 'd job" where
  "addRealTimeProcessingJob m messageData prio =
     addJob m ''real_time_processing'' ''real_time_message'' messageData
       (noOptions\<lparr>priority := Some prio, attempts := Some 1\<rparr>)"

text \<open>
  The queue library's retry rule: a job whose processor throws is dispatched again as long
  as the attempts made stay below the job's \<open>attempts\<close> option (1 when absent).
  Before the next dispatch the library computes the delay from the \<open>backoff\<close>
  option.  The queues of this program give that option as a bare string, which is not a
  strategy the library knows: the computation throws and the job is not dispatched again.
  \<open>dispatches\<close> counts the dispatches of a job over the outcomes of its processor,
  \<open>True\<close> for a run that returns and \<open>False\<close> for one that throws.
\<close>

fun dispatches :: "'d job \<Rightarrow> bool list \<Rightarrow> nat" where
  "dispatches j [] = 0"
| "dispatches j (ok # outcomes) =
     (if ok then 1
      else if int (attemptsMade j + 1) < (case attempts (opts j) of None \<Rightarrow> 1 | Some a \<Rightarrow> a)
           then (case backoff (opts j) of
                   None \<Rightarrow> 1 + dispatches (j\<lparr>attemptsMade := attemptsMade j + 1\<rparr>) outcomes
                 | Some strategy \<Rightarrow> 1)
           else 1)"

definition startedManager :: queueManager where
  "startedManager = initialize \<lparr> managerQueues = [], isInitialized = False \<rparr>"

section \<open>MessageProcessor: the technical level of a message\<close>

definition technicalTerms :: "jsstring list" where
  "technicalTerms = map js
     [''blockchain'', ''smart'', ''contract'', ''consensus'', ''validator'',
      ''node'', ''hash'', ''merkle'', ''tree'', ''proof'', ''stake'', ''work'',
      ''layer'', ''scaling'', ''sharding'', ''rollup'', ''sidechain'',
      ''interoperability'', ''oracle'', ''governance'', ''tokenomics'']"

text \<open>
  \<open>assessTechnicalLevel\<close> receives the tokens of the lower-cased content; the
  tokenizer returns no token for the empty string.
\<close>

definition assessTechnicalLevel :: "jsstring list \<Rightarrow> jsnum" where
  "assessTechnicalLevel tokens =
     (let technicalCount = length (filter (\<lambda>token. token \<in> set technicalTerms) tokens)
      in js_min10 (js_times10 (js_div technicalCount (length tokens))))"

section \<open>The responder: completion call and fallback\<close>



datatype callError = Timeout | RequestFailed | Thrown












section \<open>ContextualEngine: the template responder\<close>










section \<open>Suspicion score: range and cap\<close>

lemma score_step: "(if c then s + k else s) = s + (if c then k else (0::int))"
  by simp

lemma calculateSuspicionScore_sum: "calculateSuspicionScore a = min (spec_sum a) 10"
  unfolding calculateSuspicionScore_def spec_sum_def
  by (simp only: score_step [of _ _ 1] score_step [of _ _ 2] score_step [of _ _ 3]
        score_step [of _ _ 5] Let_def add_0 add.assoc)

lemma spec_sum_nonneg: "0 \<le> spec_sum a"
  by (simp add: spec_sum_def)

lemma score_of_analysis:
  "suspicionScore (performBehaviorAnalysis now tz p h) =
   min (spec_sum
     \<lparr> messageFrequency = analyzeMessageFrequency now h,
       averageMessageLength = calculateAverageMessageLength h,
       topicConsistency = analyzeTopicConsistency h,
       interactionPatterns = analyzeInteractionPatterns h,
       suspicionScore = 0,
       riskFactors = [],
       activityPattern = analyzeActivityPattern tz h,
       responsePatterns = analyzeResponsePatterns h,
       contentAnalysis = analyzeContentPatterns h \<rparr>) 10"
  by (simp add: performBehaviorAnalysis_def Let_def calculateSuspicionScore_sum)

text \<open>
  C1.  Whatever the statistics in the analysis object (finite of any magnitude, infinite or
  \<open>NaN\<close>), the score returned by \<open>calculateSuspicionScore\<close> is between 0 and 10
  inclusive, and it is the minimum of the additive sum of the fired rules and 10.  So is the
  score that \<open>performBehaviorAnalysis\<close> stores for any message history.
\<close>

theorem C1_score_in_range:
  "0 \<le> calculateSuspicionScore a \<and> calculateSuspicionScore a \<le> 10 \<and>
   calculateSuspicionScore a = min (spec_sum a) 10 \<and>
   0 \<le> suspicionScore (performBehaviorAnalysis now tz p h) \<and>
   suspicionScore (performBehaviorAnalysis now tz p h) \<le> 10"
  using spec_sum_nonneg by (simp add: calculateSuspicionScore_sum score_of_analysis)

theorem C1_score_in_range_witness:
  "0 \<le> calculateSuspicionScore example1 \<and> calculateSuspicionScore example1 \<le> 10 \<and>
   calculateSuspicionScore example1 = min (spec_sum example1) 10 \<and>
   0 \<le> suspicionScore (performBehaviorAnalysis 0 0 () history11) \<and>
   suspicionScore (performBehaviorAnalysis 0 0 () history11) \<le> 10"
  by (rule C1_score_in_range)

section \<open>The specification's first example\<close>

lemma example1_fields:
  "messageFrequency example1 = Fin 25"
  "averageMessageLength example1 = Fin 8"
  "repetitionRate (contentAnalysis example1) = Fin (95/100)"
  "genericResponseRate (contentAnalysis example1) = Fin (85/100)"
  by (simp_all add: example1_def)

lemma example1_sum_ge:
  assumes "messageFrequency a = Fin 25"
    and "repetitionRate (contentAnalysis a) = Fin (95/100)"
    and "genericResponseRate (contentAnalysis a) = Fin (85/100)"
    and "averageMessageLength a = Fin 8"
  shows "16 \<le> spec_sum a"
  using assms by (simp add: spec_sum_def js_gt_def)

lemma short_messages_tag:
  "''extremely_short_messages'' \<in> set (identifyRiskFactors a) \<longleftrightarrow>
   js_lt (averageMessageLength a) (Fin 5)"
  by (simp add: identifyRiskFactors_def)

text \<open>
  C2 as stated fails on the last tag: \<open>identifyRiskFactors\<close> pushes
  \<open>extremely_short_messages\<close> for an average length below 5, and the example's average
  length is 8.
\<close>

theorem C2_counterexample:
  "\<not> (calculateSuspicionScore example1 = 10 \<and>
      ''excessive_messaging_frequency'' \<in> set (identifyRiskFactors example1) \<and>
      ''high_content_repetition'' \<in> set (identifyRiskFactors example1) \<and>
      ''generic_responses'' \<in> set (identifyRiskFactors example1) \<and>
      ''extremely_short_messages'' \<in> set (identifyRiskFactors example1))"
  by (simp add: short_messages_tag example1_fields)

text \<open>
  C2, amended.  For every analysis with message frequency 25, repetition rate 0.95,
  generic-response rate 0.85 and average message length 8, the suspicion score is 10 (the
  rules that fire add up to at least 2+3+1+3+5+2 = 16), the risk factors include
  \<open>excessive_messaging_frequency\<close>, \<open>high_content_repetition\<close> and
  \<open>generic_responses\<close>, and they do not include \<open>extremely_short_messages\<close>.
\<close>

theorem C2_example1_amended:
  assumes "messageFrequency a = Fin 25"
    and "repetitionRate (contentAnalysis a) = Fin (95/100)"
    and "genericResponseRate (contentAnalysis a) = Fin (85/100)"
    and "averageMessageLength a = Fin 8"
  shows "calculateSuspicionScore a = 10 \<and>
         ''excessive_messaging_frequency'' \<in> set (identifyRiskFactors a) \<and>
         ''high_content_repetition'' \<in> set (identifyRiskFactors a) \<and>
         ''generic_responses'' \<in> set (identifyRiskFactors a) \<and>
         ''extremely_short_messages'' \<notin> set (identifyRiskFactors a)"
proof -
  have "calculateSuspicionScore a = 10"
    using example1_sum_ge [OF assms] by (simp add: calculateSuspicionScore_sum)
  moreover have "''excessive_messaging_frequency'' \<in> set (identifyRiskFactors a)"
    using assms(1) by (simp add: identifyRiskFactors_def js_gt_def)
  moreover have "''high_content_repetition'' \<in> set (identifyRiskFactors a)"
    using assms(2) by (simp add: identifyRiskFactors_def js_gt_def)
  moreover have "''generic_responses'' \<in> set (identifyRiskFactors a)"
    using assms(3) by (simp add: identifyRiskFactors_def js_gt_def)
  moreover have "''extremely_short_messages'' \<notin> set (identifyRiskFactors a)"
    using assms(4) by (simp add: short_messages_tag)
  ultimately show ?thesis by simp
qed

theorem C2_example1_amended_witness:
  "messageFrequency example1 = Fin 25 \<and>
   repetitionRate (contentAnalysis example1) = Fin (95/100) \<and>
   genericResponseRate (contentAnalysis example1) = Fin (85/100) \<and>
   averageMessageLength example1 = Fin 8 \<and>
   calculateSuspicionScore example1 = 10 \<and>
   ''excessive_messaging_frequency'' \<in> set (identifyRiskFactors example1) \<and>
   ''high_content_repetition'' \<in> set (identifyRiskFactors example1) \<and>
   ''generic_responses'' \<in> set (identifyRiskFactors example1) \<and>
   ''extremely_short_messages'' \<notin> set (identifyRiskFactors example1)"
  using C2_example1_amended [of example1] by (simp add: example1_fields)

section \<open>The analysis of a history\<close>

subsection \<open>The empty history\<close>

lemma fold_max_replicate0: "fold max (replicate n (0::nat)) 0 = 0"
  by (induction n) simp_all

lemma fold_add_replicate0: "fold (+) (replicate n (0::nat)) 0 = 0"
  by (induction n) simp_all

lemma activity_empty: "isUnusualPattern (analyzeActivityPattern tz []) = False"
  by (simp add: analyzeActivityPattern_def Let_def js_gt_def fold_max_replicate0
      fold_add_replicate0 del: fold_replicate)

lemma content_empty:
  "repetitionRate (analyzeContentPatterns []) = NaN"
  "genericResponseRate (analyzeContentPatterns []) = NaN"
  "commonPhrases (analyzeContentPatterns []) = []"
  by (simp_all add: analyzeContentPatterns_def Let_def js_div_def phraseFrequency_def)

lemma response_empty:
  "fastResponses (analyzeResponsePatterns []) = 0"
  "totalResponses (analyzeResponsePatterns []) = 0"
  by (simp_all add: analyzeResponsePatterns_def Let_def)

lemma score_empty: "suspicionScore (performBehaviorAnalysis now tz p []) = 2"
  by (simp add: score_of_analysis spec_sum_def activity_empty content_empty response_empty
      analyzeMessageFrequency_def calculateAverageMessageLength_def analyzeTopicConsistency_def
      js_gt_def)

text \<open>
  C7 as stated fails on the score: with an empty history the average length 0 is below 10
  and the topic consistency 0 is below 0.2, and each of the two rules adds 1.
\<close>

theorem C7_counterexample:
  "\<not> (suspicionScore (performBehaviorAnalysis 0 0 () []) = 0)"
  by (simp add: score_empty)

text \<open>
  C7, amended.  For an empty message history, whatever the clock, the time zone and the
  profile, the behavior analysis returns frequency 0, average length 0, topic consistency 0,
  an empty list of interaction patterns and an empty list of common phrases, and a suspicion
  score of exactly 2.
\<close>

theorem C7_empty_history_amended:
  "messageFrequency (performBehaviorAnalysis now tz p []) = Fin 0 \<and>
   averageMessageLength (performBehaviorAnalysis now tz p []) = Fin 0 \<and>
   topicConsistency (performBehaviorAnalysis now tz p []) = Fin 0 \<and>
   interactionPatterns (performBehaviorAnalysis now tz p []) = [] \<and>
   commonPhrases (contentAnalysis (performBehaviorAnalysis now tz p [])) = [] \<and>
   suspicionScore (performBehaviorAnalysis now tz p []) = 2"
  by (simp add: score_empty)
     (simp add: performBehaviorAnalysis_def Let_def content_empty
      analyzeMessageFrequency_def calculateAverageMessageLength_def analyzeTopicConsistency_def
      analyzeInteractionPatterns_def initiationCount_def js_div_def js_gt_def)

theorem C7_empty_history_amended_witness:
  "messageFrequency (performBehaviorAnalysis 1700000000000 3600000 () []) = Fin 0 \<and>
   averageMessageLength (performBehaviorAnalysis 1700000000000 3600000 () []) = Fin 0 \<and>
   topicConsistency (performBehaviorAnalysis 1700000000000 3600000 () []) = Fin 0 \<and>
   interactionPatterns (performBehaviorAnalysis 1700000000000 3600000 () []) = [] \<and>
   commonPhrases (contentAnalysis (performBehaviorAnalysis 1700000000000 3600000 () [])) = [] \<and>
   suspicionScore (performBehaviorAnalysis 1700000000000 3600000 () []) = 2"
  by (rule C7_empty_history_amended)

subsection \<open>Eleven messages, analysed at two times\<close>

lemma replicate24:
  "replicate 24 (0::nat) = [0,0,0,0,0,0,0,0,0,0,0,0,0,0,0,0,0,0,0,0,0,0,0,0]"
  by (simp add: eval_nat_numeral)

lemma activityAscending: "isUnusualPattern (analyzeActivityPattern 0 historyAscending) = True"
  by (simp add: analyzeActivityPattern_def historyAscending_def getHours_def Let_def
      replicate24 js_gt_def)

lemma lengthAscending: "calculateAverageMessageLength historyAscending = Fin 1"
  by (simp add: calculateAverageMessageLength_def historyAscending_def js_div_def)

lemma topicAscending: "analyzeTopicConsistency historyAscending = Fin 1"
  by (simp add: analyzeTopicConsistency_def historyAscending_def js_div_def)

lemma responseAscending:
  "fastResponses (analyzeResponsePatterns historyAscending) = 0"
  "totalResponses (analyzeResponsePatterns historyAscending) = 0"
  by (simp_all add: analyzeResponsePatterns_def historyAscending_def Let_def)

lemma contentAscending:
  "repetitionRate (analyzeContentPatterns historyAscending) = Fin 0"
  "genericResponseRate (analyzeContentPatterns historyAscending) = Fin 0"
  by (simp_all add: analyzeContentPatterns_def historyAscending_def Let_def js_div_def
      toLowerCase_def trim_def is_space_def genericWords_def js_def)

lemma endsAscending:
  "timestamp (hd historyAscending) = 0"
  "timestamp (last historyAscending) = 600000"
  by (simp_all add: historyAscending_def)

lemma frequencyAscending:
  "analyzeMessageFrequency 4200000 historyAscending = Fin 11"
  "analyzeMessageFrequency 36600000 historyAscending = Fin (11/10)"
  by (simp_all add: analyzeMessageFrequency_def historyAscending_def Let_def)

lemma scoreAscending:
  "suspicionScore (performBehaviorAnalysis 4200000 0 p historyAscending) = 5"
  "suspicionScore (performBehaviorAnalysis 36600000 0 p historyAscending) = 3"
  by (simp_all add: score_of_analysis spec_sum_def activityAscending lengthAscending
      topicAscending responseAscending contentAscending frequencyAscending js_gt_def)

text \<open>
  C3 as stated fails: \<open>analyzeMessageFrequency\<close> measures the span from the timestamp
  of the last element of the history to \<open>Date.now()\<close>.  The same eleven messages
  score 5 when analysed one hour after the last of them and 3 when analysed ten hours
  after it.
\<close>

theorem C3_counterexample:
  "suspicionScore (performBehaviorAnalysis 4200000 0 () historyAscending) \<noteq>
   suspicionScore (performBehaviorAnalysis 36600000 0 () historyAscending)"
  by (simp add: scoreAscending)

lemma frequency_within_the_hour:
  assumes "messageHistory \<noteq> []"
    and "now - timestamp (last messageHistory) \<le> 3600000"
  shows "analyzeMessageFrequency now messageHistory = Fin (rat_of_nat (length messageHistory))"
proof -
  have "rat_of_int (now - timestamp (last messageHistory)) \<le> 3600000"
    using assms(2) by (metis of_int_le_iff of_int_numeral)
  then have "rat_of_int (now - timestamp (last messageHistory)) / (1000 * 60 * 60) \<le> 1"
    by simp
  then show ?thesis
    using assms(1) by (simp add: analyzeMessageFrequency_def Let_def max_def)
qed

lemma frequency_same_clock:
  assumes "now1 = now2 \<or>
      (now1 - timestamp (last messageHistory) \<le> 3600000 \<and>
       now2 - timestamp (last messageHistory) \<le> 3600000)"
  shows "analyzeMessageFrequency now1 messageHistory =
         analyzeMessageFrequency now2 messageHistory"
proof (cases "messageHistory = []")
  case True
  then show ?thesis by (simp add: analyzeMessageFrequency_def)
next
  case False
  with assms show ?thesis
    by (auto simp: frequency_within_the_hour)
qed

text \<open>
  C3, amended.  For every fixed message history and time zone, and whatever the prior
  profiles, two runs of the behavior analysis yield the same suspicion score when they
  read the same wall-clock time, and also when both take place no later than one hour
  after the timestamp of the last element of the history.
\<close>

theorem C3_same_score_within_the_hour:
  assumes "now1 = now2 \<or>
      (now1 - timestamp (last messageHistory) \<le> 3600000 \<and>
       now2 - timestamp (last messageHistory) \<le> 3600000)"
  shows "suspicionScore (performBehaviorAnalysis now1 tz p1 messageHistory) =
         suspicionScore (performBehaviorAnalysis now2 tz p2 messageHistory)"
  using frequency_same_clock [OF assms] by (simp add: score_of_analysis spec_sum_def)

text \<open>The two runs of the witness are ten minutes and seventy minutes after the first
  message, hence at most one hour after the last one.\<close>

theorem C3_same_score_within_the_hour_witness:
  "600000 - timestamp (last historyAscending) \<le> 3600000 \<and>
   4200000 - timestamp (last historyAscending) \<le> 3600000 \<and>
   3600000 < 4200000 - timestamp (hd historyAscending) \<and>
   suspicionScore (performBehaviorAnalysis 600000 0 () historyAscending) =
   suspicionScore (performBehaviorAnalysis 4200000 0 () historyAscending) \<and>
   suspicionScore (performBehaviorAnalysis 4200000 0 () historyAscending) = 5"
  using C3_same_score_within_the_hour
    [where ?now1.0 = 600000 and ?now2.0 = 4200000 and messageHistory = historyAscending
       and tz = 0 and ?p1.0 = "()" and ?p2.0 = "()"]
  by (simp add: endsAscending scoreAscending)

section \<open>Project classification: the first maximum wins\<close>

text \<open>A split has at least one piece, so the subtraction in \<open>typeScore\<close> never
  truncates.\<close>

lemma js_split_pieces: "1 \<le> length (js_split sep acc s)"
  by (induction sep acc s rule: js_split.induct) simp_all

lemma scanTypes_Nil: "scanTypes text [] st = st"
  by (simp add: scanTypes_def)

lemma scanTypes_Cons:
  "scanTypes text ((t, kws) # table) (m, d) =
   scanTypes text table (if typeScore text kws > m then (typeScore text kws, t) else (m, d))"
  by (simp add: scanTypes_def Let_def)

lemma scanTypes_append:
  "scanTypes text (xs @ ys) st = scanTypes text ys (scanTypes text xs st)"
  by (simp add: scanTypes_def)

lemma scanTypes_keep:
  "\<forall>(t, kws) \<in> set table. typeScore text kws \<le> m \<Longrightarrow> scanTypes text table (m, d) = (m, d)"
  by (induction table) (auto simp: scanTypes_Nil scanTypes_Cons)

lemma scanTypes_below:
  "\<forall>(t, kws) \<in> set table. typeScore text kws < b \<Longrightarrow> m < b \<Longrightarrow>
   fst (scanTypes text table (m, d)) < b"
  by (induction table arbitrary: m d) (auto simp: scanTypes_Nil scanTypes_Cons)

lemma scanTypes_first_maximum:
  assumes "0 < typeScore text kws"
    and "\<forall>(t', k') \<in> set pre. typeScore text k' < typeScore text kws"
    and "\<forall>(t', k') \<in> set post. typeScore text k' \<le> typeScore text kws"
  shows "scanTypes text (pre @ (t, kws) # post) (0, d) = (typeScore text kws, t)"
proof -
  obtain m1 d1 where st: "scanTypes text pre (0, d) = (m1, d1)"
    by (cases "scanTypes text pre (0, d)")
  have lt: "m1 < typeScore text kws"
    using scanTypes_below [OF assms(2) assms(1), of d] st by simp
  have "scanTypes text (pre @ (t, kws) # post) (0, d) =
        scanTypes text ((t, kws) # post) (m1, d1)"
    by (simp add: scanTypes_append st)
  also have "\<dots> = scanTypes text post (typeScore text kws, t)"
    using lt by (simp add: scanTypes_Cons)
  also have "\<dots> = (typeScore text kws, t)"
    by (rule scanTypes_keep [OF assms(3)])
  finally show ?thesis .
qed

lemma tie_scores:
  "map (\<lambda>(t, kws). typeScore (combinedText tieGuild) kws) indicators = [1, 1, 0, 0, 0]"
  by code_simp

lemma tie_detected: "detectedType tieGuild = ''defi''"
  by code_simp

text \<open>
  C4 as stated fails on ties: the loop replaces the detected type only on a strictly
  higher score, so of two types tied for the maximum the one that comes first in the table
  stays.  For a guild named \<open>DeFi NFT\<close> the scores are 1, 1, 0, 0, 0 and the detected
  type is \<open>defi\<close>, not \<open>unknown\<close>.
\<close>

theorem C4_counterexample:
  "map (\<lambda>(t, kws). typeScore (combinedText tieGuild) kws) indicators = [1, 1, 0, 0, 0] \<and>
   projectType (categorizeProject tieGuild \<lparr> projectType = ''unknown'' \<rparr>) \<noteq> ''unknown''"
  by (simp add: tie_scores categorizeProject_def tie_detected)

text \<open>
  C4, amended.  For every community name, description and channel names, when every type
  scores zero the selected project type is \<open>unknown\<close>; otherwise the selected type is
  the first one, in the order \<open>defi\<close>, \<open>nft\<close>, \<open>gaming\<close>,
  \<open>infrastructure\<close>, \<open>meme\<close>, whose keyword-occurrence score is the maximum over
  all types: every type before it scores strictly less and no type after it scores more.
  A type with the strictly highest score is therefore selected, and a tie for the maximum
  goes to the tied type that comes first.
\<close>

theorem C4_first_maximum_wins:
  "((\<forall>(t, kws) \<in> set indicators. typeScore (combinedText g) kws = 0)
      \<longrightarrow> projectType (categorizeProject g profile) = ''unknown'') \<and>
   (\<forall>pre t kws post.
      indicators = pre @ (t, kws) # post \<and>
      0 < typeScore (combinedText g) kws \<and>
      (\<forall>(t', k') \<in> set pre. typeScore (combinedText g) k' < typeScore (combinedText g) kws) \<and>
      (\<forall>(t', k') \<in> set post. typeScore (combinedText g) k' \<le> typeScore (combinedText g) kws)
      \<longrightarrow> projectType (categorizeProject g profile) = t)"
proof (intro conjI impI allI)
  assume "\<forall>(t, kws) \<in> set indicators. typeScore (combinedText g) kws = 0"
  then have "\<forall>(t, kws) \<in> set indicators. typeScore (combinedText g) kws \<le> 0"
    by auto
  from scanTypes_keep [OF this]
  show "projectType (categorizeProject g profile) = ''unknown''"
    by (simp add: categorizeProject_def detectedType_def)
next
  fix pre t kws post
  assume "indicators = pre @ (t, kws) # post \<and>
      0 < typeScore (combinedText g) kws \<and>
      (\<forall>(t', k') \<in> set pre. typeScore (combinedText g) k' < typeScore (combinedText g) kws) \<and>
      (\<forall>(t', k') \<in> set post. typeScore (combinedText g) k' \<le> typeScore (combinedText g) kws)"
  then show "projectType (categorizeProject g profile) = t"
    using scanTypes_first_maximum [of "combinedText g" kws pre post t "''unknown''"]
    by (simp add: categorizeProject_def detectedType_def)
qed

lemma yield_scores:
  "map (\<lambda>(t, kws). typeScore (combinedText yieldGuild) kws) indicators = [6, 0, 0, 0, 0]"
  by code_simp

lemma yield_first: "typeScore (combinedText yieldGuild) (snd (hd indicators)) = 6"
  by code_simp

lemma yield_rest:
  "list_all (\<lambda>(t, kws). typeScore (combinedText yieldGuild) kws \<le> 6) (tl indicators)"
  by code_simp

lemma indicators_split: "indicators = [] @ (''defi'', snd (hd indicators)) # tl indicators"
  by (simp add: indicators_def)

text \<open>The second example of the specification: the DeFi keywords occur six times, no
  other keyword occurs, and the theorem gives \<open>defi\<close>.\<close>

theorem C4_first_maximum_wins_witness:
  "map (\<lambda>(t, kws). typeScore (combinedText yieldGuild) kws) indicators = [6, 0, 0, 0, 0] \<and>
   projectType (categorizeProject yieldGuild \<lparr> projectType = ''unknown'' \<rparr>) = ''defi''"
proof
  show "map (\<lambda>(t, kws). typeScore (combinedText yieldGuild) kws) indicators = [6, 0, 0, 0, 0]"
    by (rule yield_scores)
  note first_wins = C4_first_maximum_wins [THEN conjunct2, rule_format,
      where g = yieldGuild and pre = "[]" and t = "''defi''"
        and kws = "snd (hd indicators)" and post = "tl indicators"]
  have rest: "\<forall>(t', k') \<in> set (tl indicators).
      typeScore (combinedText yieldGuild) k' \<le> typeScore (combinedText yieldGuild) (snd (hd indicators))"
    using yield_rest by (simp only: yield_first list_all_iff)
  show "projectType (categorizeProject yieldGuild \<lparr> projectType = ''unknown'' \<rparr>) = ''defi''"
  proof (rule first_wins, intro conjI)
    show "indicators = [] @ (''defi'', snd (hd indicators)) # tl indicators"
      by (rule indicators_split)
    show "0 < typeScore (combinedText yieldGuild) (snd (hd indicators))"
      by (simp only: yield_first zero_less_numeral)
    show "\<forall>(t', k') \<in> set [].
      typeScore (combinedText yieldGuild) k' < typeScore (combinedText yieldGuild) (snd (hd indicators))"
      by simp
    show "\<forall>(t', k') \<in> set (tl indicators).
      typeScore (combinedText yieldGuild) k' \<le> typeScore (combinedText yieldGuild) (snd (hd indicators))"
      by (rule rest)
  qed
qed

section \<open>The broadcast hub after a second registration\<close>

text \<open>
  C5 at its failing input.  A client that registered for server \<open>A\<close> and then for
  server \<open>B\<close> stays in the connection set of \<open>A\<close>:
  \<open>registerServerConnection\<close> overwrites the client's server id and adds the client
  to the new set without removing it from the old one.  A broadcast to \<open>A\<close> is then
  delivered to this client, whose registered server id is \<open>B\<close>.
\<close>

theorem C5_broadcast_after_reregistration:
  "broadcastToServer (hubRun reRegister) ''A'' = [''c1''] \<and>
   map_option serverId (map_of (clients (hubRun reRegister)) ''c1'') = Some (Some ''B'')"
  by code_simp

text \<open>
  C10 at its failing input.  When the same client disconnects, \<open>handleDisconnection\<close>
  removes it from the set of its current server id \<open>B\<close> only: the set of \<open>A\<close>
  still holds the id of a client that is no longer in the clients map.  The heartbeat reaps
  through the same function, with the same result.
\<close>

theorem C10_stale_entry_after_disconnect:
  "map_of (serverConnections (hubRun reRegisterThenClose)) ''A'' = Some [''c1''] \<and>
   map_of (clients (hubRun reRegisterThenClose)) ''c1'' = None \<and>
   map_of (serverConnections (hubRun reRegisterThenReaped)) ''A'' = Some [''c1''] \<and>
   map_of (clients (hubRun reRegisterThenReaped)) ''c1'' = None"
  by code_simp

section \<open>Attempts of a job added through addJob\<close>

text \<open>
  C6 at its failing input.  The real-time queue is configured with one attempt, but
  \<open>addJob\<close> passes \<open>attempts: options.attempts || 3\<close> with every job, and options
  given with a job take precedence over the queue's defaults.  A job added to the real-time
  queue through \<open>addJob\<close> without an \<open>attempts\<close> option carries three attempts and
  is dispatched three times when its processor keeps throwing.  Only
  \<open>addRealTimeProcessingJob\<close>, which passes \<open>attempts: 1\<close> itself, gives a job that
  is dispatched once.
\<close>

theorem C6_generic_path_retries:
  "map_option attempts (map_of (managerQueues startedManager) ''real_time_processing'')
     = Some (Some 1) \<and>
   map_sum id (\<lambda>j. (attempts (opts j), backoff (opts j), dispatches j [False, False, False]))
     (addJob startedManager ''real_time_processing'' ''real_time_message'' ()
        (noOptions\<lparr>priority := Some 10\<rparr>)) = Inr (Some 3, None, 3) \<and>
   map_sum id (\<lambda>j. (attempts (opts j), backoff (opts j), dispatches j [False, False, False]))
     (addRealTimeProcessingJob startedManager () 10) = Inr (Some 1, None, 1)"
  by code_simp

section \<open>The technical level of an empty message\<close>

text \<open>
  C8 at its failing input.  For the empty content there is no token, and
  \<open>assessTechnicalLevel\<close> divides the count 0 by the length 0: the level is \<open>NaN\<close>,
  not 0.
\<close>

theorem C8_technical_level_of_no_tokens:
  "assessTechnicalLevel [] = NaN \<and> assessTechnicalLevel [] \<noteq> Fin 0"
  by (simp add: assessTechnicalLevel_def js_div_def)

section \<open>The fallback reply\<close>











end
